theory Spec2Isabelle
  imports Complex_Main
begin

section \<open>The push-event relay \<^verbatim>\<open>fp.py\<close>\<close>

text \<open>
  The script reads a push event from standard input, changes into the repository named
  by the event below a base directory, runs \<^verbatim>\<open>git fetch\<close> there and hands the revision
  range to the repository's \<^verbatim>\<open>hooks/post-receive\<close>, whose output and exit status it
  forwards. It is a Python 2 script (\<^verbatim>\<open>print outd\<close>); the embedding follows \<^verbatim>\<open>main\<close> line by
  line under CPython 2.7 on a POSIX system. Everything outside the script (the
  interpreter's library and the machine it runs on) is a parameter of the model.
\<close>

subsection \<open>Byte strings and unicode strings\<close>

text \<open>
  Python 2 has two string types. A \<^verbatim>\<open>str\<close> is a string of bytes: the command line, the
  literals of the script, what the hook prints. A \<^verbatim>\<open>unicode\<close> is a string of code points:
  every string that \<^verbatim>\<open>json.load\<close> returns. Where the two meet, Python converts with the
  ASCII codec, and the conversion raises when a byte or a code point is 128 or more.
\<close>

type_synonym unicode = "nat list"

definition uni :: "string \<Rightarrow> unicode" where
  "uni s = map of_char s"

definition is_ascii :: "string \<Rightarrow> bool" where
  "is_ascii s = list_all (\<lambda>c. (of_char c :: nat) < 128) s"

text \<open>\<^verbatim>\<open>s.decode('ascii')\<close>: \<open>None\<close> is UnicodeDecodeError.\<close>

definition ascii_decode :: "string \<Rightarrow> unicode option" where
  "ascii_decode s = (if is_ascii s then Some (uni s) else None)"

text \<open>\<^verbatim>\<open>t.encode('ascii')\<close>: \<open>None\<close> is UnicodeEncodeError.\<close>

definition ascii_encode :: "unicode \<Rightarrow> string option" where
  "ascii_encode t = (if list_all (\<lambda>c. c < 128) t then Some (map char_of t) else None)"

subsection \<open>Payload values\<close>

text \<open>
  A float: a finite one is the real number it denotes, except for the negative zero,
  which is a value of its own.
\<close>

datatype pyfloat = Finite real | NegZero | Inf bool | NaN

text \<open>
  What \<^verbatim>\<open>json.load\<close> returns: \<^verbatim>\<open>None\<close>, a bool, an integer, a float, a unicode string, a
  list or a dict with unicode keys. A dict is the association list of its items, each
  key once, read with \<open>map_of\<close>.
\<close>

datatype json =
  JNull
| JBool bool
| JInt int
| JFloat pyfloat
| JStr unicode
| JArr "json list"
| JObj "(unicode \<times> json) list"

text \<open>Python's truth value of a payload value, as \<^verbatim>\<open>not x\<close> tests it.\<close>

fun truthy :: "json \<Rightarrow> bool" where
  "truthy JNull = False"
| "truthy (JBool b) = b"
| "truthy (JInt n) = (n \<noteq> 0)"
| "truthy (JFloat (Finite x)) = (x \<noteq> 0)"
| "truthy (JFloat NegZero) = False"
| "truthy (JFloat (Inf s)) = True"
| "truthy (JFloat NaN) = True"
| "truthy (JStr s) = (s \<noteq> [])"
| "truthy (JArr xs) = (xs \<noteq> [])"
| "truthy (JObj kvs) = (kvs \<noteq> [])"

subsection \<open>Exceptions and the ways a run ends\<close>

datatype exn =
  ValueError
| KeyError string
| TypeError
| AttributeError
| UnicodeDecodeError
| UnicodeEncodeError
| Exception string
| ChdirOSError string
| ExecOSError string
| CalledProcessError int

text \<open>
  \<open>Exited n\<close> is \<^verbatim>\<open>sys.exit(n)\<close>; \<open>ParserError m\<close> is \<^verbatim>\<open>parser.error(m)\<close>, which prints the
  usage and exits with status 2; \<open>Raised e\<close> is an exception nobody catches; \<open>Hangs\<close> is
  a wait for a child process that never ends.
\<close>

datatype outcome =
  Exited int
| ParserError string
| Raised exn
| Hangs

fun exit_status :: "outcome \<Rightarrow> int option" where
  "exit_status (Exited n) = Some (n mod 256)"
| "exit_status (ParserError m) = Some 2"
| "exit_status (Raised e) = Some 1"
| "exit_status Hangs = None"

text \<open>
  The interactions of a run with its surroundings, in the order they happen; a system
  call that fails is an interaction too. The directory of \<open>GitFetch\<close>, \<open>Popen\<close>,
  \<open>Communicate\<close> and \<open>CommunicateError\<close> is the working directory at that moment.
  \<open>Communicate d bytes\<close> is a call of \<^verbatim>\<open>pr.communicate\<close> that hands \<open>bytes\<close> to the
  hook's standard input, closes it and collects what the hook answers.
  \<open>CommunicateError d\<close> is a call of \<^verbatim>\<open>pr.communicate\<close> that raises while it writes: the
  hook is running and has received no complete line (at most the leading blocks of a very
  long one).
\<close>

datatype event =
  ReadStdin
| Chdir string
| GitFetch string
| Popen string
| Communicate string string
| CommunicateError string

text \<open>
  A run: how it ends, what it did, and the bytes the script itself wrote to its standard
  output and standard error. (What \<^verbatim>\<open>git fetch\<close> writes to the descriptors it inherits,
  and what the interpreter prints for an uncaught exception, is not the script's.)
\<close>

record run =
  outcome :: outcome
  trace :: "event list"
  stdout :: string
  stderr :: string

definition halt :: "outcome \<Rightarrow> event list \<Rightarrow> run" where
  "halt oc evs = \<lparr>outcome = oc, trace = evs, stdout = [], stderr = []\<rparr>"

subsection \<open>The surroundings\<close>

text \<open>
  The library functions the script calls, as far as they are not fixed below:
  \<^verbatim>\<open>OptionParser().parse_args()\<close> (\<open>Inl n\<close> when optparse itself exits with status \<open>n\<close>,
  \<open>Inr args\<close> the positional arguments otherwise); \<^verbatim>\<open>json.load\<close> on the bytes of standard
  input (\<open>None\<close> for a ValueError); \<^verbatim>\<open>str\<close> on a float, a list or a dict, whose text
  depends on the build and is always ASCII; and the file system encoding applied to a
  path that is not ASCII (\<open>None\<close> when the encoding has no bytes for it).
\<close>

record runtime =
  parse_args :: "string list \<Rightarrow> int + string list"
  json_load :: "string \<Rightarrow> json option"
  py_str :: "json \<Rightarrow> string"
  fs_encode_wide :: "unicode \<Rightarrow> string option"

datatype 'a proc = CannotStart | NeverEnds | Ends 'a

record hook_result =
  outd :: string
  errd :: string
  returncode :: int

text \<open>
  The machine: the command line, the bytes on standard input, which paths are
  directories one can change into, what \<^verbatim>\<open>git fetch\<close> does in a directory, whether
  \<^verbatim>\<open>hooks/post-receive\<close> can be executed there, and what it answers to its input
  (\<open>None\<close> when it never terminates).
\<close>

record world =
  argv :: "string list"
  stdin :: string
  isdir :: "string \<Rightarrow> bool"
  git_fetch :: "string \<Rightarrow> int proc"
  hook_startable :: "string \<Rightarrow> bool"
  hook_run :: "string \<Rightarrow> string \<Rightarrow> hook_result option"

subsection \<open>Library operations with a fixed meaning\<close>

text \<open>
  Subscripting \<^verbatim>\<open>x[k]\<close> with a key that is an ASCII literal of the script: it finds the
  unicode key with the same characters.
\<close>

fun getitem :: "json \<Rightarrow> string \<Rightarrow> exn + json" where
  "getitem (JObj kvs) k =
     (case map_of kvs (uni k) of None \<Rightarrow> Inl (KeyError k) | Some v \<Rightarrow> Inr v)"
| "getitem v k = Inl TypeError"

text \<open>
  \<^verbatim>\<open>posixpath.join(a, b)\<close> for a byte string \<open>a\<close> and a unicode string \<open>b\<close>. An absolute
  \<open>b\<close> is the result; otherwise \<open>b\<close> is appended to \<open>a\<close>, which Python first decodes as
  ASCII.
\<close>

definition os_path_join :: "string \<Rightarrow> unicode \<Rightarrow> exn + unicode" where
  "os_path_join a b =
     (if take 1 b = uni ''/'' then Inr b
      else if a = [] \<or> last a = CHR ''/'' then
        (case ascii_decode a of None \<Rightarrow> Inl UnicodeDecodeError | Some path \<Rightarrow> Inr (path @ b))
      else
        (case ascii_decode a of None \<Rightarrow> Inl UnicodeDecodeError
         | Some path \<Rightarrow> Inr (path @ uni ''/'' @ b)))"

text \<open>
  The bytes of a unicode path in the file system encoding, which agrees with ASCII on
  ASCII text.
\<close>

definition fsencode :: "runtime \<Rightarrow> unicode \<Rightarrow> string option" where
  "fsencode rt path =
     (case ascii_encode path of Some p \<Rightarrow> Some p | None \<Rightarrow> fs_encode_wide rt path)"

text \<open>
  What \<^verbatim>\<open>os.chdir\<close> makes of a unicode argument before the system call: the bytes in the
  file system encoding, refused with a TypeError when they contain a NUL.
\<close>

definition chdir_arg :: "runtime \<Rightarrow> unicode \<Rightarrow> exn + string" where
  "chdir_arg rt path =
     (case fsencode rt path of
        None \<Rightarrow> Inl UnicodeEncodeError
      | Some p \<Rightarrow> if CHR 0x00 \<in> set p then Inl TypeError else Inr p)"

text \<open>The decimal digits of a natural number, and \<^verbatim>\<open>str\<close> of an integer.\<close>

fun decimal :: "nat \<Rightarrow> string" where
  "decimal n =
     (if n < 10 then [''0123456789'' ! n]
      else decimal (n div 10) @ [''0123456789'' ! (n mod 10)])"

declare decimal.simps [simp del]

definition str_int :: "int \<Rightarrow> string" where
  "str_int n = (if n < 0 then ''-'' @ decimal (nat (- n)) else decimal (nat n))"

text \<open>
  The \<^verbatim>\<open>%s\<close> conversion, as text: a unicode string stands for itself, anything else goes
  through \<^verbatim>\<open>str\<close>.
\<close>

fun fmt_s :: "runtime \<Rightarrow> json \<Rightarrow> unicode" where
  "fmt_s rt (JStr s) = s"
| "fmt_s rt JNull = uni ''None''"
| "fmt_s rt (JBool b) = uni (if b then ''True'' else ''False'')"
| "fmt_s rt (JInt n) = uni (str_int n)"
| "fmt_s rt v = uni (py_str rt v)"

subsection \<open>The script\<close>

text \<open>Lines 57 to 65.\<close>

definition validate_post_receive_args :: "json \<Rightarrow> json \<Rightarrow> json \<Rightarrow> exn + unit" where
  "validate_post_receive_args ref_name before_rev after_rev =
     (if \<not> truthy ref_name then Inl (Exception ''No ref found'')
      else if \<not> truthy before_rev then Inl (Exception ''No before found'')
      else if \<not> truthy after_rev then Inl (Exception ''No after found'')
      else Inr ())"

text \<open>Lines 39 to 43: the payload and the four fields read from it.\<close>

definition load_fields :: "runtime \<Rightarrow> string \<Rightarrow> exn + (json \<times> json \<times> json \<times> json)" where
  "load_fields rt bytes =
     (case json_load rt bytes of
        None \<Rightarrow> Inl ValueError
      | Some payload \<Rightarrow>
         (case getitem payload ''repository'' of Inl e \<Rightarrow> Inl e | Inr repository \<Rightarrow>
         (case getitem repository ''name'' of Inl e \<Rightarrow> Inl e | Inr repo_name \<Rightarrow>
         (case getitem payload ''ref'' of Inl e \<Rightarrow> Inl e | Inr ref_name \<Rightarrow>
         (case getitem payload ''before'' of Inl e \<Rightarrow> Inl e | Inr before_rev \<Rightarrow>
         (case getitem payload ''after'' of Inl e \<Rightarrow> Inl e | Inr after_rev \<Rightarrow>
            Inr (repo_name, ref_name, before_rev, after_rev)))))))"

text \<open>
  The text of the line for the hook, \<^verbatim>\<open>"%s %s %s\n" % (before, after, ref)\<close>.
\<close>

definition hook_input :: "runtime \<Rightarrow> json \<Rightarrow> json \<Rightarrow> json \<Rightarrow> unicode" where
  "hook_input rt before_rev after_rev ref_name =
     fmt_s rt before_rev @ uni '' '' @ fmt_s rt after_rev @ uni '' '' @ fmt_s rt ref_name @
     uni ''\<newline>''"

text \<open>
  Lines 48 to 54, with the path computed on line 47. \<^verbatim>\<open>pr.communicate\<close> writes the line
  through \<^verbatim>\<open>os.write\<close>, which encodes unicode text as ASCII.
\<close>

definition hook_chain :: "runtime \<Rightarrow> world \<Rightarrow> unicode \<Rightarrow> json \<Rightarrow> json \<Rightarrow> json \<Rightarrow> run" where
  "hook_chain rt w repo_dir ref_name before_rev after_rev =
     (case chdir_arg rt repo_dir of
        Inl e \<Rightarrow> halt (Raised e) []
      | Inr d \<Rightarrow>
         if \<not> isdir w d then halt (Raised (ChdirOSError d)) [Chdir d]
         else
           (case git_fetch w d of
              CannotStart \<Rightarrow> halt (Raised (ExecOSError ''git'')) [Chdir d, GitFetch d]
            | NeverEnds \<Rightarrow> halt Hangs [Chdir d, GitFetch d]
            | Ends status \<Rightarrow>
                if status \<noteq> 0
                then halt (Raised (CalledProcessError status)) [Chdir d, GitFetch d]
                else if \<not> hook_startable w d
                then halt (Raised (ExecOSError ''hooks/post-receive''))
                       [Chdir d, GitFetch d, Popen d]
                else
                  (case ascii_encode (hook_input rt before_rev after_rev ref_name) of
                     None \<Rightarrow>
                       halt (Raised UnicodeEncodeError)
                         [Chdir d, GitFetch d, Popen d, CommunicateError d]
                   | Some line \<Rightarrow>
                       (let evs = [Chdir d, GitFetch d, Popen d, Communicate d line]
                        in case hook_run w d line of
                             None \<Rightarrow> halt Hangs evs
                           | Some pr \<Rightarrow>
                               \<lparr>outcome = Exited (returncode pr), trace = evs,
                                stdout = outd pr @ ''\<newline>'',
                                stderr = errd pr @ ''\<newline>''\<rparr>))))"

text \<open>Lines 39 to 54, once the base directory is known.\<close>

definition relay :: "runtime \<Rightarrow> world \<Rightarrow> string \<Rightarrow> run" where
  "relay rt w base_repo_dir =
     (case load_fields rt (stdin w) of
        Inl e \<Rightarrow> halt (Raised e) [ReadStdin]
      | Inr (repo_name, ref_name, before_rev, after_rev) \<Rightarrow>
         (case validate_post_receive_args ref_name before_rev after_rev of
            Inl e \<Rightarrow> halt (Raised e) [ReadStdin]
          | Inr ok \<Rightarrow>
             (case repo_name of
                JStr name \<Rightarrow>
                  (case os_path_join base_repo_dir name of
                     Inl e \<Rightarrow> halt (Raised e) [ReadStdin]
                   | Inr repo_dir \<Rightarrow>
                       (let r = hook_chain rt w repo_dir ref_name before_rev after_rev
                        in r\<lparr>trace := ReadStdin # trace r\<rparr>))
              | other \<Rightarrow> halt (Raised AttributeError) [ReadStdin])))"

text \<open>Lines 30 to 37, then the rest.\<close>

definition main :: "runtime \<Rightarrow> world \<Rightarrow> run" where
  "main rt w =
     (case parse_args rt (argv w) of
        Inl status \<Rightarrow> halt (Exited status) []
      | Inr args \<Rightarrow>
         (case args of
            [] \<Rightarrow> halt (ParserError ''Base repo dir is required'') []
          | base_repo_dir # rest \<Rightarrow> relay rt w base_repo_dir))"

subsection \<open>Notions used by the properties\<close>


text \<open>A payload without a usable ref: the key is absent, or its value is false for Python.\<close>

definition ref_missing :: "json \<Rightarrow> bool" where
  "ref_missing payload =
     (case getitem payload ''ref'' of Inl e \<Rightarrow> True | Inr ref_name \<Rightarrow> \<not> truthy ref_name)"


subsection \<open>A sample installation\<close>

text \<open>
  Push events as they arrive on standard input (in UTF-8), and the documents they
  denote.
\<close>

definition push_bytes :: string where
  \<open>push_bytes = ''{"repository": {"name": "widgets"}, "ref": "refs/heads/master", "before": "1f3a", "after": "9c0e"}''\<close>

definition push_doc :: json where
  "push_doc = JObj [(uni ''repository'', JObj [(uni ''name'', JStr (uni ''widgets''))]),
     (uni ''ref'', JStr (uni ''refs/heads/master'')),
     (uni ''before'', JStr (uni ''1f3a'')),
     (uni ''after'', JStr (uni ''9c0e''))]"

definition empty_before_bytes :: string where
  \<open>empty_before_bytes = ''{"repository": {"name": "widgets"}, "ref": "refs/heads/master", "before": "", "after": "9c0e"}''\<close>

definition empty_before_doc :: json where
  "empty_before_doc = JObj [(uni ''repository'', JObj [(uni ''name'', JStr (uni ''widgets''))]),
     (uni ''ref'', JStr (uni ''refs/heads/master'')),
     (uni ''before'', JStr []),
     (uni ''after'', JStr (uni ''9c0e''))]"

definition empty_after_bytes :: string where
  \<open>empty_after_bytes = ''{"repository": {"name": "widgets"}, "ref": "refs/heads/master", "before": "1f3a", "after": ""}''\<close>

definition empty_after_doc :: json where
  "empty_after_doc = JObj [(uni ''repository'', JObj [(uni ''name'', JStr (uni ''widgets''))]),
     (uni ''ref'', JStr (uni ''refs/heads/master'')),
     (uni ''before'', JStr (uni ''1f3a'')),
     (uni ''after'', JStr [])]"

definition no_after_bytes :: string where
  \<open>no_after_bytes = ''{"repository": {"name": "widgets"}, "ref": "refs/heads/master", "before": ""}''\<close>

definition no_after_doc :: json where
  "no_after_doc = JObj [(uni ''repository'', JObj [(uni ''name'', JStr (uni ''widgets''))]),
     (uni ''ref'', JStr (uni ''refs/heads/master'')),
     (uni ''before'', JStr [])]"

definition empty_ref_bytes :: string where
  \<open>empty_ref_bytes = ''{"repository": {"name": "widgets"}, "ref": "", "before": "1f3a", "after": "9c0e"}''\<close>

definition empty_ref_doc :: json where
  "empty_ref_doc = JObj [(uni ''repository'', JObj [(uni ''name'', JStr (uni ''widgets''))]),
     (uni ''ref'', JStr []),
     (uni ''before'', JStr (uni ''1f3a'')),
     (uni ''after'', JStr (uni ''9c0e''))]"

definition no_before_bytes :: string where
  \<open>no_before_bytes = ''{"repository": {"name": "widgets"}, "ref": "", "after": "9c0e"}''\<close>

definition no_before_doc :: json where
  "no_before_doc = JObj [(uni ''repository'', JObj [(uni ''name'', JStr (uni ''widgets''))]),
     (uni ''ref'', JStr []),
     (uni ''after'', JStr (uni ''9c0e''))]"

definition unnamed_bytes :: string where
  \<open>unnamed_bytes = ''{"repository": {"name": ""}, "ref": "refs/heads/master", "before": "1f3a", "after": "9c0e"}''\<close>

definition unnamed_doc :: json where
  "unnamed_doc = JObj [(uni ''repository'', JObj [(uni ''name'', JStr [])]),
     (uni ''ref'', JStr (uni ''refs/heads/master'')),
     (uni ''before'', JStr (uni ''1f3a'')),
     (uni ''after'', JStr (uni ''9c0e''))]"

definition flag_ref_bytes :: string where
  \<open>flag_ref_bytes = ''{"repository": {"name": "widgets"}, "ref": true, "before": "1f3a", "after": "9c0e"}''\<close>

definition flag_ref_doc :: json where
  "flag_ref_doc = JObj [(uni ''repository'', JObj [(uni ''name'', JStr (uni ''widgets''))]),
     (uni ''ref'', JBool True),
     (uni ''before'', JStr (uni ''1f3a'')),
     (uni ''after'', JStr (uni ''9c0e''))]"

definition number_ref_bytes :: string where
  \<open>number_ref_bytes = ''{"repository": {"name": "widgets"}, "ref": 42, "before": "1f3a", "after": "9c0e"}''\<close>

definition number_ref_doc :: json where
  "number_ref_doc = JObj [(uni ''repository'', JObj [(uni ''name'', JStr (uni ''widgets''))]),
     (uni ''ref'', JInt 42),
     (uni ''before'', JStr (uni ''1f3a'')),
     (uni ''after'', JStr (uni ''9c0e''))]"

definition accent_bytes :: string where
  \<open>accent_bytes = ''{"repository": {"name": "widgets"}, "ref": "refs/heads/caf'' @ [CHR 0xC3, CHR 0xA9] @ ''", "before": "1f3a", "after": "9c0e"}''\<close>

definition accent_doc :: json where
  "accent_doc = JObj [(uni ''repository'', JObj [(uni ''name'', JStr (uni ''widgets''))]),
     (uni ''ref'', JStr (uni ''refs/heads/caf'' @ [233])),
     (uni ''before'', JStr (uni ''1f3a'')),
     (uni ''after'', JStr (uni ''9c0e''))]"

text \<open>A base directory whose name has a letter outside ASCII, in UTF-8.\<close>

definition accent_base :: string where
  "accent_base = ''/srv/g'' @ [CHR 0xC3, CHR 0xAE] @ ''t''"

text \<open>
  What \<^verbatim>\<open>parse_args\<close> does for a parser without declared options: \<^verbatim>\<open>--\<close> ends the options,
  \<^verbatim>\<open>-h\<close> and \<^verbatim>\<open>--help\<close> (or an abbreviation of it) print the help and exit with status 0,
  any other option is an error with status 2, and everything else is positional.
\<close>

fun optparse :: "string list \<Rightarrow> string list \<Rightarrow> int + string list" where
  "optparse largs [] = Inr largs"
| "optparse largs (arg # rargs) =
     (if arg = ''--'' then Inr (largs @ rargs)
      else if take 2 arg = ''--'' then
        (let opt = takeWhile (\<lambda>c. c \<noteq> CHR ''='') arg
         in if take (length opt) ''--help'' = opt \<and> CHR ''='' \<notin> set arg then Inl 0 else Inl 2)
      else if take 1 arg = ''-'' \<and> 1 < length arg then
        (if arg ! 1 = CHR ''h'' then Inl 0 else Inl 2)
      else optparse (largs @ [arg]) rargs)"

text \<open>
  A runtime that knows these events and runs in the C locale, where the file system
  encoding is ASCII. Its \<^verbatim>\<open>str\<close> is never asked, since none of the events has a float, a
  list or a dict as a field.
\<close>

definition sample_runtime :: runtime where
  "sample_runtime =
     \<lparr>parse_args = optparse [],
      json_load = map_of [(push_bytes, push_doc), (empty_before_bytes, empty_before_doc),
        (empty_after_bytes, empty_after_doc), (no_after_bytes, no_after_doc),
        (empty_ref_bytes, empty_ref_doc), (no_before_bytes, no_before_doc),
        (unnamed_bytes, unnamed_doc), (flag_ref_bytes, flag_ref_doc),
        (number_ref_bytes, number_ref_doc),
        (accent_bytes, accent_doc)],
      py_str = (\<lambda>v. []),
      fs_encode_wide = (\<lambda>path. None)\<rparr>"

text \<open>
  A machine with the given command line, standard input and directories, where
  \<^verbatim>\<open>git fetch\<close> ends with the given status everywhere and every hook repeats its input on
  standard output, writes a note to standard error and exits with status 3.
\<close>

definition sample_world :: "string list \<Rightarrow> string \<Rightarrow> string list \<Rightarrow> int \<Rightarrow> world" where
  "sample_world args bytes dirs status =
     \<lparr>argv = args, stdin = bytes, isdir = (\<lambda>p. p \<in> set dirs),
      git_fetch = (\<lambda>d. Ends status), hook_startable = (\<lambda>d. True),
      hook_run = (\<lambda>d line. Some \<lparr>outd = line, errd = ''notified\<newline>'', returncode = 3\<rparr>)\<rparr>"

section \<open>Properties\<close>

lemmas run_defs = main_def relay_def hook_chain_def halt_def

lemmas run_splits = sum.splits option.splits proc.splits list.splits json.splits
  if_splits prod.splits

subsection \<open>Conversions between bytes and text\<close>

lemma uni_Nil [simp]: "uni [] = []"
  by (simp add: uni_def)

lemma uni_append: "uni (a @ b) = uni a @ uni b"
  by (simp add: uni_def)

lemma uni_eq_iff [simp]: "uni a = uni b \<longleftrightarrow> a = b"
  by (simp add: uni_def inj_on_def)

lemma uni_eq_Nil_iff [simp]: "uni s = [] \<longleftrightarrow> s = []" "[] = uni s \<longleftrightarrow> s = []"
  by (auto simp: uni_def)

lemma take_uni: "take n (uni s) = uni (take n s)"
  by (simp add: uni_def take_map)

lemma map_char_of_uni [simp]: "map char_of (uni s) = s"
  by (induction s) (simp_all add: uni_def)

lemma list_all_uni [simp]: "list_all (\<lambda>c. c < 128) (uni s) = is_ascii s"
  by (simp add: uni_def is_ascii_def list_all_iff)

lemma is_ascii_append [simp]: "is_ascii (a @ b) \<longleftrightarrow> is_ascii a \<and> is_ascii b"
  by (simp add: is_ascii_def)

lemma ascii_encode_uni: "ascii_encode (uni s) = (if is_ascii s then Some s else None)"
  by (simp add: ascii_encode_def)


lemma chdir_arg_ascii:
  "is_ascii p \<Longrightarrow> CHR 0x00 \<notin> set p \<Longrightarrow> chdir_arg rt (uni p) = Inr p"
  by (simp add: chdir_arg_def fsencode_def ascii_encode_uni)




subsection \<open>The sample installation at work\<close>

lemmas bytes_defs = push_bytes_def empty_before_bytes_def empty_after_bytes_def
  no_after_bytes_def empty_ref_bytes_def no_before_bytes_def unnamed_bytes_def
  flag_ref_bytes_def number_ref_bytes_def accent_bytes_def

lemmas doc_defs = push_doc_def empty_before_doc_def empty_after_doc_def
  no_after_doc_def empty_ref_doc_def no_before_doc_def unnamed_doc_def
  flag_ref_doc_def number_ref_doc_def accent_doc_def

lemma sample_json_load:
  "json_load sample_runtime push_bytes = Some push_doc"
  "json_load sample_runtime empty_before_bytes = Some empty_before_doc"
  "json_load sample_runtime empty_after_bytes = Some empty_after_doc"
  "json_load sample_runtime no_after_bytes = Some no_after_doc"
  "json_load sample_runtime empty_ref_bytes = Some empty_ref_doc"
  "json_load sample_runtime no_before_bytes = Some no_before_doc"
  "json_load sample_runtime unnamed_bytes = Some unnamed_doc"
  "json_load sample_runtime flag_ref_bytes = Some flag_ref_doc"
  "json_load sample_runtime number_ref_bytes = Some number_ref_doc"
  "json_load sample_runtime accent_bytes = Some accent_doc"
  by (simp_all add: sample_runtime_def bytes_defs)

lemma sample_load_fields:
  "load_fields sample_runtime push_bytes =
     Inr (JStr (uni ''widgets''), JStr (uni ''refs/heads/master''), JStr (uni ''1f3a''),
          JStr (uni ''9c0e''))"
  "load_fields sample_runtime empty_before_bytes =
     Inr (JStr (uni ''widgets''), JStr (uni ''refs/heads/master''), JStr [],
          JStr (uni ''9c0e''))"
  "load_fields sample_runtime empty_after_bytes =
     Inr (JStr (uni ''widgets''), JStr (uni ''refs/heads/master''), JStr (uni ''1f3a''),
          JStr [])"
  "load_fields sample_runtime no_after_bytes = Inl (KeyError ''after'')"
  "load_fields sample_runtime empty_ref_bytes =
     Inr (JStr (uni ''widgets''), JStr [], JStr (uni ''1f3a''), JStr (uni ''9c0e''))"
  "load_fields sample_runtime no_before_bytes = Inl (KeyError ''before'')"
  "load_fields sample_runtime unnamed_bytes =
     Inr (JStr [], JStr (uni ''refs/heads/master''), JStr (uni ''1f3a''), JStr (uni ''9c0e''))"
  "load_fields sample_runtime flag_ref_bytes =
     Inr (JStr (uni ''widgets''), JBool True, JStr (uni ''1f3a''), JStr (uni ''9c0e''))"
  "load_fields sample_runtime number_ref_bytes =
     Inr (JStr (uni ''widgets''), JInt 42, JStr (uni ''1f3a''), JStr (uni ''9c0e''))"
  "load_fields sample_runtime accent_bytes =
     Inr (JStr (uni ''widgets''), JStr (uni ''refs/heads/caf'' @ [233]), JStr (uni ''1f3a''),
          JStr (uni ''9c0e''))"
  by (simp_all add: load_fields_def sample_json_load doc_defs)

lemma sample_world_sel:
  "argv (sample_world args bytes dirs status) = args"
  "stdin (sample_world args bytes dirs status) = bytes"
  "isdir (sample_world args bytes dirs status) p = (p \<in> set dirs)"
  "git_fetch (sample_world args bytes dirs status) d = Ends status"
  "hook_startable (sample_world args bytes dirs status) d = True"
  "hook_run (sample_world args bytes dirs status) d line =
     Some \<lparr>outd = line, errd = ''notified\<newline>'', returncode = 3\<rparr>"
  by (simp_all add: sample_world_def)

lemma sample_parse_args:
  "parse_args sample_runtime [''/srv/git''] = Inr [''/srv/git'']"
  "parse_args sample_runtime [accent_base] = Inr [accent_base]"
  "parse_args sample_runtime [] = Inr []"
  by (simp_all add: sample_runtime_def accent_base_def)

lemma sample_argv:
  "parse_args sample_runtime (argv (sample_world [''/srv/git''] bytes dirs status)) =
     Inr (''/srv/git'' # [])"
  "parse_args sample_runtime (argv (sample_world [accent_base] bytes dirs status)) =
     Inr (accent_base # [])"
  "parse_args sample_runtime (argv (sample_world [] bytes dirs status)) = Inr []"
  by (simp_all add: sample_world_sel sample_parse_args)

lemma sample_join:
  "os_path_join ''/srv/git'' (uni ''widgets'') = Inr (uni ''/srv/git/widgets'')"
  "os_path_join ''/srv/git'' [] = Inr (uni ''/srv/git/'')"
  "os_path_join accent_base (uni ''widgets'') = Inl UnicodeDecodeError"
  "os_path_join accent_base [] = Inl UnicodeDecodeError"
  by (simp_all add: os_path_join_def ascii_decode_def is_ascii_def take_uni
        accent_base_def uni_append [symmetric])

lemma sample_chdir_arg:
  "chdir_arg sample_runtime (uni ''/srv/git/widgets'') = Inr ''/srv/git/widgets''"
  "chdir_arg sample_runtime (uni ''/srv/git/'') = Inr ''/srv/git/''"
  by (simp_all add: chdir_arg_ascii is_ascii_def)

lemma sample_validate:
  "validate_post_receive_args (JStr (uni ''refs/heads/master'')) (JStr (uni ''1f3a''))
     (JStr (uni ''9c0e'')) = Inr ()"
  "validate_post_receive_args (JBool True) (JStr (uni ''1f3a'')) (JStr (uni ''9c0e'')) = Inr ()"
  "validate_post_receive_args (JStr (uni ''refs/heads/caf'' @ [233])) (JStr (uni ''1f3a''))
     (JStr (uni ''9c0e'')) = Inr ()"
  "validate_post_receive_args (JInt 42) (JStr (uni ''1f3a'')) (JStr (uni ''9c0e'')) = Inr ()"
  by (simp_all add: validate_post_receive_args_def)

lemma sample_lines:
  "ascii_encode (hook_input sample_runtime (JStr (uni ''1f3a'')) (JStr (uni ''9c0e''))
     (JStr (uni ''refs/heads/master''))) = Some ''1f3a 9c0e refs/heads/master\<newline>''"
  "ascii_encode (hook_input sample_runtime (JStr (uni ''1f3a'')) (JStr (uni ''9c0e''))
     (JBool True)) = Some ''1f3a 9c0e True\<newline>''"
  "ascii_encode (hook_input sample_runtime (JStr (uni ''1f3a'')) (JStr (uni ''9c0e''))
     (JStr (uni ''refs/heads/caf'' @ [233]))) = None"
  "ascii_encode (hook_input sample_runtime (JStr (uni ''1f3a'')) (JStr (uni ''9c0e''))
     (JInt 42)) = Some ''1f3a 9c0e 42\<newline>''"
  by (simp_all add: hook_input_def ascii_encode_def is_ascii_def str_int_def
        decimal.simps [of 42] decimal.simps [of 4])

lemmas sample_facts = sample_world_sel sample_parse_args sample_load_fields sample_join
  sample_chdir_arg sample_validate sample_lines


lemma widgets_run:
  "main sample_runtime (sample_world [''/srv/git''] push_bytes [''/srv/git/widgets''] 0) =
     \<lparr>outcome = Exited 3,
      trace = [ReadStdin, Chdir ''/srv/git/widgets'', GitFetch ''/srv/git/widgets'',
               Popen ''/srv/git/widgets'',
               Communicate ''/srv/git/widgets'' ''1f3a 9c0e refs/heads/master\<newline>''],
      stdout = ''1f3a 9c0e refs/heads/master\<newline>\<newline>'',
      stderr = ''notified\<newline>\<newline>''\<rparr>"
  by (simp add: run_defs sample_facts Let_def)



lemma accent_run:
  "main sample_runtime (sample_world [''/srv/git''] accent_bytes [''/srv/git/widgets''] 0) =
     \<lparr>outcome = Raised UnicodeEncodeError,
      trace = [ReadStdin, Chdir ''/srv/git/widgets'', GitFetch ''/srv/git/widgets'',
               Popen ''/srv/git/widgets'', CommunicateError ''/srv/git/widgets''],
      stdout = [], stderr = []\<rparr>"
  by (simp add: run_defs sample_facts Let_def)

lemma failed_fetch_run:
  "main sample_runtime (sample_world [''/srv/git''] push_bytes [''/srv/git/widgets''] 7) =
     \<lparr>outcome = Raised (CalledProcessError 7),
      trace = [ReadStdin, Chdir ''/srv/git/widgets'', GitFetch ''/srv/git/widgets''],
      stdout = [], stderr = []\<rparr>"
  by (simp add: run_defs sample_facts Let_def)


subsection \<open>The hook's input\<close>




subsection \<open>The hook's output and status\<close>

text \<open>
  C2, as amended. In every run in which the hook was started, was handed its line and
  terminated (\<^verbatim>\<open>pr.communicate\<close> returned), the relay writes to its standard output the
  hook's captured standard output followed by one newline, and to its standard error the
  hook's captured standard error followed by one newline: \<^verbatim>\<open>print\<close> closes what it prints
  with a newline of its own.
\<close>

theorem hook_output_forwarded:
  assumes "Communicate d line \<in> set (trace (main rt w))"
    and "hook_run w d line = Some pr"
  shows "stdout (main rt w) = outd pr @ ''\<newline>'' \<and> stderr (main rt w) = errd pr @ ''\<newline>''"
  using assms
  by (auto simp: run_defs Let_def split: run_splits)

theorem hook_output_forwarded_witness:
  "Communicate ''/srv/git/widgets'' ''1f3a 9c0e refs/heads/master\<newline>''
     \<in> set (trace (main sample_runtime
          (sample_world [''/srv/git''] push_bytes [''/srv/git/widgets''] 0))) \<and>
   hook_run (sample_world [''/srv/git''] push_bytes [''/srv/git/widgets''] 0)
     ''/srv/git/widgets'' ''1f3a 9c0e refs/heads/master\<newline>'' =
     Some \<lparr>outd = ''1f3a 9c0e refs/heads/master\<newline>'', errd = ''notified\<newline>'',
           returncode = 3\<rparr> \<and>
   stdout (main sample_runtime
     (sample_world [''/srv/git''] push_bytes [''/srv/git/widgets''] 0)) =
     ''1f3a 9c0e refs/heads/master\<newline>\<newline>'' \<and>
   stderr (main sample_runtime
     (sample_world [''/srv/git''] push_bytes [''/srv/git/widgets''] 0)) =
     ''notified\<newline>\<newline>''"
proof -
  let ?w = "sample_world [''/srv/git''] push_bytes [''/srv/git/widgets''] 0"
  let ?line = "''1f3a 9c0e refs/heads/master\<newline>''"
  have h1: "Communicate ''/srv/git/widgets'' ?line \<in> set (trace (main sample_runtime ?w))"
    by (simp add: widgets_run)
  have h2: "hook_run ?w ''/srv/git/widgets'' ?line =
      Some \<lparr>outd = ?line, errd = ''notified\<newline>'', returncode = 3\<rparr>"
    by (simp add: sample_world_sel)
  show ?thesis
    using h1 h2 hook_output_forwarded [OF h1 h2] by simp
qed

text \<open>
  The claim as first stated, that the relay's output is the hook's output byte for byte
  whenever the hook starts and terminates, fails twice for the sample hook. What it
  prints arrives with one more newline. And for the branch name with an accent the hook
  is started and, finding its input empty, terminates with its note on standard error,
  of which the relay writes nothing.
\<close>

theorem hook_output_not_verbatim:
  "hook_run (sample_world [''/srv/git''] push_bytes [''/srv/git/widgets''] 0)
     ''/srv/git/widgets'' ''1f3a 9c0e refs/heads/master\<newline>'' =
     Some \<lparr>outd = ''1f3a 9c0e refs/heads/master\<newline>'', errd = ''notified\<newline>'',
           returncode = 3\<rparr> \<and>
   trace (main sample_runtime
     (sample_world [''/srv/git''] push_bytes [''/srv/git/widgets''] 0)) =
     [ReadStdin, Chdir ''/srv/git/widgets'', GitFetch ''/srv/git/widgets'',
      Popen ''/srv/git/widgets'',
      Communicate ''/srv/git/widgets'' ''1f3a 9c0e refs/heads/master\<newline>''] \<and>
   stdout (main sample_runtime
     (sample_world [''/srv/git''] push_bytes [''/srv/git/widgets''] 0)) \<noteq>
     ''1f3a 9c0e refs/heads/master\<newline>'' \<and>
   stderr (main sample_runtime
     (sample_world [''/srv/git''] push_bytes [''/srv/git/widgets''] 0)) \<noteq>
     ''notified\<newline>'' \<and>
   trace (main sample_runtime
     (sample_world [''/srv/git''] accent_bytes [''/srv/git/widgets''] 0)) =
     [ReadStdin, Chdir ''/srv/git/widgets'', GitFetch ''/srv/git/widgets'',
      Popen ''/srv/git/widgets'', CommunicateError ''/srv/git/widgets''] \<and>
   hook_run (sample_world [''/srv/git''] accent_bytes [''/srv/git/widgets''] 0)
     ''/srv/git/widgets'' [] =
     Some \<lparr>outd = [], errd = ''notified\<newline>'', returncode = 3\<rparr> \<and>
   stderr (main sample_runtime
     (sample_world [''/srv/git''] accent_bytes [''/srv/git/widgets''] 0)) = []"
  by (simp add: widgets_run accent_run sample_world_sel)




subsection \<open>Failures before the hook\<close>

text \<open>
  C4. In every run in which \<^verbatim>\<open>git fetch\<close> was started and exited with a status other
  than 0, the relay ends in the CalledProcessError that carries this status, and the run
  ends with the fetch: the hook is neither started nor written to.
\<close>

theorem fetch_failure_stops_before_hook:
  assumes "GitFetch d \<in> set (trace (main rt w))"
    and "git_fetch w d = Ends status" and "status \<noteq> 0"
  shows "outcome (main rt w) = Raised (CalledProcessError status) \<and>
         trace (main rt w) = [ReadStdin, Chdir d, GitFetch d]"
  using assms
  by (auto simp: run_defs Let_def split: run_splits)

theorem fetch_failure_stops_before_hook_witness:
  "GitFetch ''/srv/git/widgets'' \<in> set (trace (main sample_runtime
     (sample_world [''/srv/git''] push_bytes [''/srv/git/widgets''] 7))) \<and>
   git_fetch (sample_world [''/srv/git''] push_bytes [''/srv/git/widgets''] 7)
     ''/srv/git/widgets'' = Ends 7 \<and> (7::int) \<noteq> 0 \<and>
   outcome (main sample_runtime
     (sample_world [''/srv/git''] push_bytes [''/srv/git/widgets''] 7)) =
     Raised (CalledProcessError 7) \<and>
   trace (main sample_runtime
     (sample_world [''/srv/git''] push_bytes [''/srv/git/widgets''] 7)) =
     [ReadStdin, Chdir ''/srv/git/widgets'', GitFetch ''/srv/git/widgets'']"
proof -
  let ?w = "sample_world [''/srv/git''] push_bytes [''/srv/git/widgets''] 7"
  have h1: "GitFetch ''/srv/git/widgets'' \<in> set (trace (main sample_runtime ?w))"
    by (simp add: failed_fetch_run)
  have h2: "git_fetch ?w ''/srv/git/widgets'' = Ends 7"
    by (simp add: sample_world_sel)
  have h3: "(7::int) \<noteq> 0" by simp
  show ?thesis
    using h1 h2 h3 fetch_failure_stops_before_hook [OF h1 h2 h3] by simp
qed

text \<open>
  C5, as amended. When the payload supplies all four of repository.name, ref, before
  and after (lines 40 to 43 succeed), validation looks at ref, then before, then after,
  and the run ends in the error of the first of them that is false for Python: a false
  ref gives the ref error whatever before and after are, a true ref with a false before
  gives the before error whatever after is, and a true ref and before with a false after
  give the after error.
\<close>

theorem validation_order:
  assumes "parse_args rt (argv w) = Inr (base # rest)"
    and "load_fields rt (stdin w) = Inr (name, r, b, a)"
  shows "(\<not> truthy r \<longrightarrow> outcome (main rt w) = Raised (Exception ''No ref found'')) \<and>
         (truthy r \<and> \<not> truthy b \<longrightarrow>
            outcome (main rt w) = Raised (Exception ''No before found'')) \<and>
         (truthy r \<and> truthy b \<and> \<not> truthy a \<longrightarrow>
            outcome (main rt w) = Raised (Exception ''No after found''))"
  using assms
  by (simp add: main_def relay_def halt_def validate_post_receive_args_def)

theorem validation_order_witness:
  "\<not> truthy (JStr []) \<and> truthy (JStr (uni ''refs/heads/master'')) \<and>
   truthy (JStr (uni ''1f3a'')) \<and>
   outcome (main sample_runtime
     (sample_world [''/srv/git''] empty_ref_bytes [''/srv/git/widgets''] 0)) =
     Raised (Exception ''No ref found'') \<and>
   outcome (main sample_runtime
     (sample_world [''/srv/git''] empty_before_bytes [''/srv/git/widgets''] 0)) =
     Raised (Exception ''No before found'') \<and>
   outcome (main sample_runtime
     (sample_world [''/srv/git''] empty_after_bytes [''/srv/git/widgets''] 0)) =
     Raised (Exception ''No after found'')"
proof -
  let ?w1 = "sample_world [''/srv/git''] empty_ref_bytes [''/srv/git/widgets''] 0"
  let ?w2 = "sample_world [''/srv/git''] empty_before_bytes [''/srv/git/widgets''] 0"
  let ?w3 = "sample_world [''/srv/git''] empty_after_bytes [''/srv/git/widgets''] 0"
  have a1: "parse_args sample_runtime (argv ?w1) = Inr (''/srv/git'' # [])"
    and a2: "parse_args sample_runtime (argv ?w2) = Inr (''/srv/git'' # [])"
    and a3: "parse_args sample_runtime (argv ?w3) = Inr (''/srv/git'' # [])"
    by (rule sample_argv)+
  have l1: "load_fields sample_runtime (stdin ?w1) =
      Inr (JStr (uni ''widgets''), JStr [], JStr (uni ''1f3a''), JStr (uni ''9c0e''))"
    and l2: "load_fields sample_runtime (stdin ?w2) =
      Inr (JStr (uni ''widgets''), JStr (uni ''refs/heads/master''), JStr [],
           JStr (uni ''9c0e''))"
    and l3: "load_fields sample_runtime (stdin ?w3) =
      Inr (JStr (uni ''widgets''), JStr (uni ''refs/heads/master''), JStr (uni ''1f3a''),
           JStr [])"
    by (simp_all add: sample_world_sel sample_load_fields)
  show ?thesis
    using validation_order [OF a1 l1] validation_order [OF a2 l2] validation_order [OF a3 l3]
    by simp
qed

text \<open>
  Without the restriction to payloads that supply all four fields the order fails: with
  a ref, an empty before and no after key, line 43 raises the KeyError for after, and
  the before error of the validation is never reported.
\<close>

theorem absent_after_preempts_before_error:
  "json_load sample_runtime
     (stdin (sample_world [''/srv/git''] no_after_bytes [''/srv/git/widgets''] 0)) =
     Some no_after_doc \<and>
   getitem no_after_doc ''ref'' = Inr (JStr (uni ''refs/heads/master'')) \<and>
   getitem no_after_doc ''before'' = Inr (JStr []) \<and>
   outcome (main sample_runtime
     (sample_world [''/srv/git''] no_after_bytes [''/srv/git/widgets''] 0)) =
     Raised (KeyError ''after'') \<and>
   outcome (main sample_runtime
     (sample_world [''/srv/git''] no_after_bytes [''/srv/git/widgets''] 0)) \<noteq>
     Raised (Exception ''No before found'')"
  by (simp add: main_def relay_def halt_def sample_world_sel sample_parse_args
        sample_load_fields sample_json_load no_after_doc_def)

text \<open>
  C6, as amended. For a payload whose ref is missing (the key is absent or its value is
  false for Python), a run that got as far as reading the payload ends in an uncaught
  exception, with exit status 1, and has done nothing but read standard input: no
  change of directory, no fetch, no hook. The exception is the ref error of the
  validation when the payload supplies all four fields; otherwise it is the error of the
  first subscript on lines 40 to 43 that fails.
\<close>

theorem missing_ref_no_interaction:
  assumes "parse_args rt (argv w) = Inr (base # rest)"
    and "json_load rt (stdin w) = Some payload"
    and "ref_missing payload"
  shows "trace (main rt w) = [ReadStdin] \<and>
         exit_status (outcome (main rt w)) = Some 1 \<and>
         (load_fields rt (stdin w) = Inr flds \<longrightarrow>
            outcome (main rt w) = Raised (Exception ''No ref found'')) \<and>
         (load_fields rt (stdin w) = Inl e \<longrightarrow> outcome (main rt w) = Raised e)"
  using assms
  by (auto simp: main_def relay_def halt_def validate_post_receive_args_def
        load_fields_def ref_missing_def split: sum.splits)

theorem missing_ref_no_interaction_witness:
  "json_load sample_runtime
     (stdin (sample_world [''/srv/git''] empty_ref_bytes [''/srv/git/widgets''] 0)) =
     Some empty_ref_doc \<and>
   ref_missing empty_ref_doc \<and>
   trace (main sample_runtime
     (sample_world [''/srv/git''] empty_ref_bytes [''/srv/git/widgets''] 0)) = [ReadStdin] \<and>
   exit_status (outcome (main sample_runtime
     (sample_world [''/srv/git''] empty_ref_bytes [''/srv/git/widgets''] 0))) = Some 1 \<and>
   outcome (main sample_runtime
     (sample_world [''/srv/git''] empty_ref_bytes [''/srv/git/widgets''] 0)) =
     Raised (Exception ''No ref found'')"
proof -
  let ?w = "sample_world [''/srv/git''] empty_ref_bytes [''/srv/git/widgets''] 0"
  have h1: "parse_args sample_runtime (argv ?w) = Inr (''/srv/git'' # [])"
    by (rule sample_argv)
  have h2: "json_load sample_runtime (stdin ?w) = Some empty_ref_doc"
    by (simp add: sample_world_sel sample_json_load)
  have h3: "ref_missing empty_ref_doc"
    by (simp add: ref_missing_def empty_ref_doc_def)
  have l: "load_fields sample_runtime (stdin ?w) =
      Inr (JStr (uni ''widgets''), JStr [], JStr (uni ''1f3a''), JStr (uni ''9c0e''))"
    by (simp add: sample_world_sel sample_load_fields)
  show ?thesis
    using h2 h3 l missing_ref_no_interaction [OF h1 h2 h3,
        of "(JStr (uni ''widgets''), JStr [], JStr (uni ''1f3a''), JStr (uni ''9c0e''))"]
    by simp
qed

text \<open>
  A missing ref does not always end in the ref error: with an empty ref and no before
  key, line 42 raises the KeyError for before, and validation is never reached.
\<close>

theorem absent_before_preempts_ref_error:
  "json_load sample_runtime
     (stdin (sample_world [''/srv/git''] no_before_bytes [''/srv/git/widgets''] 0)) =
     Some no_before_doc \<and>
   ref_missing no_before_doc \<and>
   outcome (main sample_runtime
     (sample_world [''/srv/git''] no_before_bytes [''/srv/git/widgets''] 0)) =
     Raised (KeyError ''before'') \<and>
   outcome (main sample_runtime
     (sample_world [''/srv/git''] no_before_bytes [''/srv/git/widgets''] 0)) \<noteq>
     Raised (Exception ''No ref found'')"
  by (simp add: main_def relay_def halt_def sample_world_sel sample_parse_args
        sample_load_fields sample_json_load no_before_doc_def ref_missing_def)




subsection \<open>An empty repository name\<close>




subsection \<open>The command line\<close>

text \<open>
  C10. When the command line has no positional argument, the run ends in the parser's
  usage error, with exit status 2, and standard input is never read: the run has no
  interaction at all.
\<close>

theorem no_argument_usage_error_before_stdin:
  assumes "parse_args rt (argv w) = Inr []"
  shows "outcome (main rt w) = ParserError ''Base repo dir is required'' \<and>
         exit_status (outcome (main rt w)) = Some 2 \<and>
         trace (main rt w) = []"
  using assms by (simp add: main_def halt_def)

theorem no_argument_usage_error_before_stdin_witness:
  "parse_args sample_runtime (argv (sample_world [] push_bytes [''/srv/git/widgets''] 0)) = Inr [] \<and>
   outcome (main sample_runtime (sample_world [] push_bytes [''/srv/git/widgets''] 0))
     = ParserError ''Base repo dir is required'' \<and>
   exit_status (outcome (main sample_runtime (sample_world [] push_bytes [''/srv/git/widgets''] 0)))
     = Some 2 \<and>
   trace (main sample_runtime (sample_world [] push_bytes [''/srv/git/widgets''] 0)) = []"
proof -
  have h: "parse_args sample_runtime (argv (sample_world [] push_bytes [''/srv/git/widgets''] 0)) = Inr []"
    by (rule sample_argv)
  show ?thesis
    using h no_argument_usage_error_before_stdin [OF h] by simp
qed

end
